theory Spec2Isabelle
  imports Complex_Main
begin

section \<open>Access tokens of loopback-lite (common/models/access-token.js)\<close>

text \<open>
  The development embeds the functions of \<^verbatim>\<open>common/models/access-token.js\<close>:
  \<^verbatim>\<open>AccessToken.prototype.validate\<close>, \<^verbatim>\<open>AccessToken.resolve\<close>,
  \<^verbatim>\<open>AccessToken.getIdForRequest\<close>, \<^verbatim>\<open>AccessToken.createAccessTokenId\<close> and the
  \<^verbatim>\<open>before save\<close> observer.

  Conventions of the embedding.
  \<^item> A JavaScript number is the \<^typ>\<open>real\<close> it stands for (a time value in milliseconds
    an \<^typ>\<open>int\<close>). The subtraction and the division of \<^verbatim>\<open>validate\<close> round their result to
    a double: the rounding is a parameter of the model, and the theorems hold however it
    rounds. \<^verbatim>\<open>NaN\<close> is the time value of an invalid Date. A \<^verbatim>\<open>ttl\<close> that is \<^verbatim>\<open>NaN\<close>
    is \<^term>\<open>None\<close>, as an absent one: both pass \<^verbatim>\<open>ttl !== 0\<close> and fail \<^verbatim>\<open>assert(ttl)\<close>.
    The infinities are outside the model.
  \<^item> A JavaScript string is a \<^typ>\<open>string\<close>, one \<^typ>\<open>char\<close> for each code unit, so the
    model covers the strings whose code units are below 256.
  \<^item> A property that may be missing is an \<^typ>\<open>'a option\<close>; \<^term>\<open>None\<close> stands for
    \<^verbatim>\<open>undefined\<close> (or \<^verbatim>\<open>null\<close>).
  \<^item> The collaborators the file calls without defining them (the store behind
    \<^verbatim>\<open>findById\<close> and \<^verbatim>\<open>destroy\<close>, the model registry, the clock, the random source
    \<^verbatim>\<open>uid2\<close>, Node's base64 decoder and the request's \<^verbatim>\<open>header\<close> function) are
    parameters of the model.
  \<^item> An asynchronous function reports through its callback. The model returns the list of
    what happened, oldest first: each call of the callback with its arguments, and the call
    of \<^verbatim>\<open>this.destroy\<close>.
\<close>

subsection \<open>Data\<close>

datatype error =
    AssertionError string
      \<comment> \<open>thrown by \<^verbatim>\<open>assert(cond, message)\<close>\<close>
  | HttpError string nat string
      \<comment> \<open>\<^verbatim>\<open>new Error(message)\<close> with \<^verbatim>\<open>status = statusCode\<close> and \<^verbatim>\<open>code\<close>\<close>
  | ExternalError string
      \<comment> \<open>an error a collaborator reports (the store, the random source)\<close>

text \<open>
  A value that has a \<^verbatim>\<open>getTime\<close> function: a Date with its time value in milliseconds,
  or an invalid Date (\<^verbatim>\<open>new Date(NaN)\<close>), whose time value is \<^verbatim>\<open>NaN\<close>.
\<close>

datatype date = Date int | InvalidDate

text \<open>\<^verbatim>\<open>date.getTime()\<close>; \<^term>\<open>None\<close> is \<^verbatim>\<open>NaN\<close>.\<close>

fun getTime :: "date \<Rightarrow> int option" where
  "getTime (Date ms) = Some ms"
| "getTime InvalidDate = None"

text \<open>The attributes of a token that the file reads or writes.\<close>

record accessToken =
  id' :: "string option"
  ttl :: "real option"
  created :: "date option"
    \<comment> \<open>\<^term>\<open>Some d\<close>: a value with a \<^verbatim>\<open>getTime\<close> function; \<^term>\<open>None\<close>: anything else\<close>
  principalType :: "string option"

text \<open>\<^verbatim>\<open>User.settings\<close> of a principal model, as far as the file reads it.\<close>

record user_settings =
  allowEternalTokens :: "bool option"

text \<open>
  What happens during a call, oldest first. \<^term>\<open>Callback err r\<close> is a call
  \<^verbatim>\<open>cb(err, r)\<close>; an argument that is not passed is \<^term>\<open>None\<close>.
\<close>

datatype 'r event =
    Destroy
  | Callback "error option" "'r option"

text \<open>
  The surroundings of \<^verbatim>\<open>validate\<close> and \<^verbatim>\<open>resolve\<close>, over a store of type \<^typ>\<open>'s\<close>.
\<close>

record 's env =
  now :: int
    \<comment> \<open>\<^verbatim>\<open>Date.now()\<close>\<close>
  rounded :: "real \<Rightarrow> real"
    \<comment> \<open>the double that an arithmetic operation returns for its exact result\<close>
  userRelation :: "user_settings option"
    \<comment> \<open>\<^verbatim>\<open>AccessToken.relations.user\<close> and its \<^verbatim>\<open>modelTo\<close>, which may not be set up\<close>
  findModel :: "string \<Rightarrow> user_settings option"
    \<comment> \<open>\<^verbatim>\<open>AccessToken.registry.findModel\<close>\<close>
  destroy :: "accessToken \<Rightarrow> 's \<Rightarrow> error option \<times> 's"
    \<comment> \<open>\<^verbatim>\<open>token.destroy(cb)\<close>: the error it reports, and the store afterwards\<close>
  findById :: "string \<Rightarrow> 's \<Rightarrow> error + accessToken option"
    \<comment> \<open>\<^verbatim>\<open>AccessToken.findById(id, cb)\<close>\<close>

subsection \<open>AccessToken.prototype.validate\<close>

text \<open>A string property is truthy when it is there and not empty.\<close>

definition truthy :: "string option \<Rightarrow> bool" where
  "truthy v = (case v of None \<Rightarrow> False | Some s \<Rightarrow> s \<noteq> [])"

text \<open>\<^verbatim>\<open>!!(User && User.settings.allowEternalTokens)\<close>, for the model of the user relation.\<close>

definition eternalTokensAllowed :: "'s env \<Rightarrow> bool" where
  "eternalTokensAllowed env =
     (case userRelation env of
        None \<Rightarrow> False
      | Some User \<Rightarrow> allowEternalTokens User = Some True)"

text \<open>
  \<^verbatim>\<open>(now - created) / 1000\<close> for a time value \<^verbatim>\<open>created\<close> that is a number: the
  difference is rounded to a double, and so is the quotient.
\<close>

definition elapsedSeconds :: "'s env \<Rightarrow> int \<Rightarrow> real" where
  "elapsedSeconds env c = rounded env (rounded env (real_of_int (now env - c)) / 1000)"

text \<open>
  The \<^verbatim>\<open>catch\<close> branch: the error is passed to the callback on the next tick, nothing
  else happens.
\<close>

definition throw :: "string \<Rightarrow> 's \<Rightarrow> bool event list \<times> 's" where
  "throw message st = ([Callback (Some (AssertionError message)) None], st)"

text \<open>
  The callback that the \<^verbatim>\<open>principalType\<close> branch defers. The branch has no
  \<^verbatim>\<open>return\<close> of its own: the function goes on after it.
\<close>

definition principalCheck :: "'s env \<Rightarrow> accessToken \<Rightarrow> bool event list" where
  "principalCheck env tok =
     (if truthy (principalType tok) then
        (case findModel env (the (principalType tok)) of
           None \<Rightarrow> [Callback None (Some False)]
         | Some User \<Rightarrow> [])
      else [])"

text \<open>
  \<^verbatim>\<open>validate\<close>. The events are in the order they take place: \<^verbatim>\<open>this.destroy\<close> is
  called while \<^verbatim>\<open>validate\<close> runs, a callback deferred with \<^verbatim>\<open>process.nextTick\<close>
  runs once \<^verbatim>\<open>validate\<close> has returned, and the store reports the end of
  \<^verbatim>\<open>destroy\<close> after that. \<^verbatim>\<open>destroy\<close> is taken to report a failure through its
  callback and not to throw. The four assertions come first, in the order of the source;
  each one that fails ends the call in the \<^verbatim>\<open>catch\<close> branch. The first assertion asks
  only for a \<^verbatim>\<open>getTime\<close> function, so an invalid Date passes it; its time value is
  \<^verbatim>\<open>NaN\<close>, the elapsed seconds are \<^verbatim>\<open>NaN\<close>, and \<^verbatim>\<open>NaN < ttl\<close> is false.
\<close>

definition validate :: "'s env \<Rightarrow> accessToken \<Rightarrow> 's \<Rightarrow> bool event list \<times> 's" where
  "validate env tok st =
     (case created tok of
        None \<Rightarrow> throw ''token.created must be a valid Date'' st
      | Some date \<Rightarrow>
          if ttl tok = Some 0 then throw ''token.ttl must be not be 0'' st
          else
            (case ttl tok of
               None \<Rightarrow> throw ''token.ttl must exist'' st
             | Some secondsToLive \<Rightarrow>
                 if \<not> eternalTokensAllowed env \<and> \<not> (secondsToLive \<ge> - 1)
                 then throw ''token.ttl must be >= -1'' st
                 else
                   let isEternalToken = (secondsToLive = - 1);
                       isValid =
                         (if isEternalToken then eternalTokensAllowed env
                          else
                            (case getTime date of
                               None \<Rightarrow> False
                             | Some c \<Rightarrow> elapsedSeconds env c < secondsToLive))
                   in
                     if isValid then
                       (principalCheck env tok @ [Callback None (Some True)], st)
                     else
                       (case destroy env tok st of
                          (err, st') \<Rightarrow>
                            (Destroy # principalCheck env tok @ [Callback err (Some False)],
                             st'))))"

text \<open>What a caller sees of a run of \<^verbatim>\<open>validate\<close>.\<close>

fun is_assertion :: "'r event \<Rightarrow> bool" where
  "is_assertion (Callback (Some (AssertionError m)) None) = True"
| "is_assertion _ = False"

text \<open>A hard error: the one thing that happens is \<^verbatim>\<open>cb(e)\<close> for a thrown assertion.\<close>

fun hard_error :: "'r event list \<Rightarrow> bool" where
  "hard_error [ev] = is_assertion ev"
| "hard_error _ = False"

text \<open>The callback is told that the token is valid: \<^verbatim>\<open>cb(null, true)\<close>.\<close>

fun says_valid :: "bool event \<Rightarrow> bool" where
  "says_valid (Callback None (Some True)) = True"
| "says_valid _ = False"

definition reports_valid :: "bool event list \<Rightarrow> bool" where
  "reports_valid evs = list_ex says_valid evs"

text \<open>The callback is told, without an error, that the token is not valid: \<^verbatim>\<open>cb(null, false)\<close>.\<close>

definition reports_invalid :: "bool event list \<Rightarrow> bool" where
  "reports_invalid evs = (Callback None (Some False) \<in> set evs)"

subsection \<open>AccessToken.resolve\<close>

definition invalidAccessToken :: error where
  "invalidAccessToken = HttpError ''Invalid Access Token'' 401 ''INVALID_TOKEN''"

text \<open>
  The callback that \<^verbatim>\<open>resolve\<close> hands to \<^verbatim>\<open>token.validate\<close>: what it passes on for
  each thing \<^verbatim>\<open>validate\<close> does.
\<close>

fun resolve_validated :: "accessToken \<Rightarrow> bool event \<Rightarrow> accessToken event" where
  "resolve_validated token Destroy = Destroy"
| "resolve_validated token (Callback (Some err) isValid) = Callback (Some err) None"
| "resolve_validated token (Callback None isValid) =
     (if isValid = Some True then Callback None (Some token)
      else Callback (Some invalidAccessToken) None)"

definition resolve :: "'s env \<Rightarrow> string \<Rightarrow> 's \<Rightarrow> accessToken event list \<times> 's" where
  "resolve env tid st =
     (case findById env tid st of
        Inl err \<Rightarrow> ([Callback (Some err) None], st)
      | Inr None \<Rightarrow> ([Callback None None], st)
      | Inr (Some token) \<Rightarrow>
          (case validate env token st of
             (evs, st') \<Rightarrow> (map (resolve_validated token) evs, st')))"

subsection \<open>AccessToken.createAccessTokenId and the before save observer\<close>

record token_settings =
  accessTokenIdLength :: "nat option"

definition DEFAULT_TOKEN_LEN :: nat where
  "DEFAULT_TOKEN_LEN = 64"

text \<open>
  \<^verbatim>\<open>uid(this.settings.accessTokenIdLength || DEFAULT_TOKEN_LEN, ...)\<close>; the random source
  \<^verbatim>\<open>uid\<close> is a parameter, it answers with an error or with a string.
\<close>

definition createAccessTokenId ::
  "(nat \<Rightarrow> error + string) \<Rightarrow> token_settings \<Rightarrow> error + string" where
  "createAccessTokenId uid settings =
     (case uid (case accessTokenIdLength settings of
                  None \<Rightarrow> DEFAULT_TOKEN_LEN
                | Some n \<Rightarrow> if n = 0 then DEFAULT_TOKEN_LEN else n) of
        Inl err \<Rightarrow> Inl err
      | Inr guid \<Rightarrow> Inr guid)"

text \<open>
  The context of the observer: \<^verbatim>\<open>ctx.instance\<close> is there when a full instance is saved
  and missing in a partial update. Whatever else the context and the instance hold is the
  extension of the two records.
\<close>

record 't ctx =
  instance' :: "'t accessToken_scheme option"

text \<open>The observer returns what it passes to \<^verbatim>\<open>next\<close>, and the context afterwards.\<close>

definition before_save ::
  "(nat \<Rightarrow> error + string) \<Rightarrow> token_settings \<Rightarrow> ('t, 'c) ctx_scheme \<Rightarrow>
     error option \<times> ('t, 'c) ctx_scheme" where
  "before_save uid settings ctx =
     (case instance' ctx of
        None \<Rightarrow> (None, ctx)
      | Some inst \<Rightarrow>
          if truthy (id' inst) then (None, ctx)
          else
            (case createAccessTokenId uid settings of
               Inl err \<Rightarrow> (Some err, ctx)
             | Inr new \<Rightarrow> (None, ctx\<lparr>instance' := Some (inst\<lparr>id' := Some new\<rparr>)\<rparr>)))"

subsection \<open>AccessToken.getIdForRequest\<close>

text \<open>
  A value read from the request: \<^verbatim>\<open>undefined\<close>, a string, or anything else (a number, an
  object, an array, \<^verbatim>\<open>null\<close>). An object is its property lookup, \<^term>\<open>Undefined\<close> where
  the object has no such property.
\<close>

datatype jsval = Undefined | Str string | Other

type_synonym jsobject = "string \<Rightarrow> jsval"

record request =
  req_params :: "jsobject option"
  req_body :: "jsobject option"
  req_query :: "jsobject option"
  req_header :: "string \<Rightarrow> jsval"
    \<comment> \<open>\<^verbatim>\<open>req.header(name)\<close>\<close>
  req_signedCookies :: "jsobject option"

record options =
  params :: "string list option"
  headers :: "string list option"
  cookies :: "string list option"
  searchDefaultTokenKeys :: "bool option"
  bearerTokenBase64Encoded :: "bool option"

text \<open>\<^verbatim>\<open>options = options || {}\<close>\<close>

definition no_options :: options where
  "no_options = \<lparr>params = None, headers = None, cookies = None,
     searchDefaultTokenKeys = None, bearerTokenBase64Encoded = None\<rparr>"

text \<open>\<^verbatim>\<open>options.params || []\<close>\<close>

definition or_empty :: "string list option \<Rightarrow> string list" where
  "or_empty v = (case v of None \<Rightarrow> [] | Some xs \<Rightarrow> xs)"

text \<open>The three lists of names, with the default keys unless they are switched off.\<close>

definition param_names :: "options \<Rightarrow> string list" where
  "param_names opts =
     or_empty (params opts) @
     (if searchDefaultTokenKeys opts \<noteq> Some False then [''access_token''] else [])"

definition header_names :: "options \<Rightarrow> string list" where
  "header_names opts =
     or_empty (headers opts) @
     (if searchDefaultTokenKeys opts \<noteq> Some False then [''X-Access-Token'', ''authorization'']
      else [])"

definition cookie_names :: "options \<Rightarrow> string list" where
  "cookie_names opts =
     or_empty (cookies opts) @
     (if searchDefaultTokenKeys opts \<noteq> Some False then [''access_token'', ''authorization'']
      else [])"

text \<open>\<^verbatim>\<open>obj && obj[key] !== undefined\<close>\<close>

definition defined_in :: "jsobject option \<Rightarrow> string \<Rightarrow> bool" where
  "defined_in obj key = (case obj of None \<Rightarrow> False | Some props \<Rightarrow> props key \<noteq> Undefined)"

text \<open>The replacement for \<^verbatim>\<open>req.param()\<close>: the value the first loop gives to \<^verbatim>\<open>id\<close>.\<close>

definition param_value :: "request \<Rightarrow> string \<Rightarrow> jsval" where
  "param_value req param =
     (if defined_in (req_params req) param then the (req_params req) param
      else if defined_in (req_body req) param then the (req_body req) param
      else if defined_in (req_query req) param then the (req_query req) param
      else Undefined)"

fun search_params :: "request \<Rightarrow> string list \<Rightarrow> string option" where
  "search_params req [] = None"
| "search_params req (param # rest) =
     (case param_value req param of
        Str tid \<Rightarrow> Some tid
      | _ \<Rightarrow> search_params req rest)"

text \<open>\<^verbatim>\<open>/^Basic /i.test(id)\<close>\<close>

fun is_basic :: "string \<Rightarrow> bool" where
  "is_basic (b # a # s # i # c # sp # rest) =
     ((b = CHR ''B'' \<or> b = CHR ''b'') \<and> (a = CHR ''A'' \<or> a = CHR ''a'') \<and>
      (s = CHR ''S'' \<or> s = CHR ''s'') \<and> (i = CHR ''I'' \<or> i = CHR ''i'') \<and>
      (c = CHR ''C'' \<or> c = CHR ''c'') \<and> sp = CHR '' '')"
| "is_basic _ = False"

text \<open>
  \<^verbatim>\<open>/^([^:]*):(.*)$/.exec(id)\<close>: the two groups, when the expression matches. The first
  group ends at the first colon. The dot matches no line terminator and the dollar only the
  end of the string, so the expression matches nothing when a line feed or a carriage
  return follows the first colon.
\<close>

definition line_terminator :: "char \<Rightarrow> bool" where
  "line_terminator ch = (ch = CHR 0x0A \<or> ch = CHR 0x0D)"

definition user_pass :: "string \<Rightarrow> (string \<times> string) option" where
  "user_pass tid =
     (case dropWhile (\<lambda>ch. ch \<noteq> CHR '':'') tid of
        [] \<Rightarrow> None
      | colon # rest \<Rightarrow>
          if list_ex line_terminator rest then None
          else Some (takeWhile (\<lambda>ch. ch \<noteq> CHR '':'') tid, rest))"

text \<open>
  What the second loop returns for a header value that is a string and not empty.
  \<^term>\<open>decode\<close> is \<^verbatim>\<open>new Buffer(id, 'base64').toString('utf8')\<close>.
\<close>

definition header_id :: "(string \<Rightarrow> string) \<Rightarrow> options \<Rightarrow> string \<Rightarrow> string" where
  "header_id decode opts tid =
     (if take 7 tid = ''Bearer '' then
        (if bearerTokenBase64Encoded opts = Some True then decode (drop 7 tid) else drop 7 tid)
      else if is_basic tid then
        (case user_pass (decode (drop 6 tid)) of
           Some (left, right) \<Rightarrow> if length right > length left then right else left
         | None \<Rightarrow> decode (drop 6 tid))
      else tid)"

fun search_headers ::
  "(string \<Rightarrow> string) \<Rightarrow> options \<Rightarrow> request \<Rightarrow> string list \<Rightarrow> string option" where
  "search_headers decode opts req [] = None"
| "search_headers decode opts req (name # rest) =
     (case req_header req name of
        Str tid \<Rightarrow>
          if tid = [] then search_headers decode opts req rest
          else Some (header_id decode opts tid)
      | _ \<Rightarrow> search_headers decode opts req rest)"

fun search_cookies :: "jsobject \<Rightarrow> string list \<Rightarrow> string option" where
  "search_cookies signed [] = None"
| "search_cookies signed (name # rest) =
     (case signed name of
        Str tid \<Rightarrow> Some tid
      | _ \<Rightarrow> search_cookies signed rest)"

text \<open>\<^verbatim>\<open>getIdForRequest\<close>; \<^term>\<open>None\<close> is the \<^verbatim>\<open>null\<close> it returns when nothing matches.\<close>

definition getIdForRequest ::
  "(string \<Rightarrow> string) \<Rightarrow> request \<Rightarrow> options option \<Rightarrow> string option" where
  "getIdForRequest decode req options =
     (let opts = (case options of None \<Rightarrow> no_options | Some given \<Rightarrow> given)
      in case search_params req (param_names opts) of
           Some tid \<Rightarrow> Some tid
         | None \<Rightarrow>
             (case search_headers decode opts req (header_names opts) of
                Some tid \<Rightarrow> Some tid
              | None \<Rightarrow>
                  (case req_signedCookies req of
                     None \<Rightarrow> None
                   | Some signed \<Rightarrow> search_cookies signed (cookie_names opts))))"

subsection \<open>The search of getIdForRequest as one ordered list\<close>

text \<open>A property of an object that may be missing.\<close>

definition property :: "jsobject option \<Rightarrow> string \<Rightarrow> jsval" where
  "property obj key = (case obj of None \<Rightarrow> Undefined | Some props \<Rightarrow> props key)"

text \<open>The first string of a list of values, and the first value that is not undefined.\<close>

fun first_string :: "jsval list \<Rightarrow> string option" where
  "first_string [] = None"
| "first_string (Str s # vs) = Some s"
| "first_string (v # vs) = first_string vs"

fun first_defined :: "jsval list \<Rightarrow> jsval" where
  "first_defined [] = Undefined"
| "first_defined (Undefined # vs) = first_defined vs"
| "first_defined (v # vs) = v"

text \<open>
  What a header name contributes to the search: the token id read from its value when the
  value is a string and not empty, nothing otherwise.
\<close>

definition header_match ::
  "(string \<Rightarrow> string) \<Rightarrow> options \<Rightarrow> request \<Rightarrow> string \<Rightarrow> jsval" where
  "header_match decode opts req name =
     (case req_header req name of
        Str v \<Rightarrow> if v = [] then Undefined else Str (header_id decode opts v)
      | _ \<Rightarrow> Undefined)"

text \<open>
  The search in the words of the specification: every parameter name is looked up in the
  route parameters, the body and the query, in that order; then come the headers and the
  signed cookies; the result is the first string met on the way.
\<close>

definition claimed_getIdForRequest ::
  "(string \<Rightarrow> string) \<Rightarrow> request \<Rightarrow> options option \<Rightarrow> string option" where
  "claimed_getIdForRequest decode req options =
     (let opts = (case options of None \<Rightarrow> no_options | Some given \<Rightarrow> given)
      in first_string
           (concat (map (\<lambda>name. [property (req_params req) name, property (req_body req) name,
                                   property (req_query req) name]) (param_names opts)) @
            map (header_match decode opts req) (header_names opts) @
            map (property (req_signedCookies req)) (cookie_names opts)))"

subsection \<open>Collaborators to run the functions on examples\<close>

text \<open>
  Modelled from the spec: the Credential Store behind \<^verbatim>\<open>findById\<close> and \<^verbatim>\<open>destroy\<close>
  is not part of the file. The specification gives its contract (find by id returns the
  record or nothing, delete removes the record); here it is a list of records by id that
  never fails. The theorems below hold for every store; this one runs their examples.
\<close>

type_synonym store = "(string \<times> accessToken) list"

definition mem_findById :: "string \<Rightarrow> store \<Rightarrow> error + accessToken option" where
  "mem_findById tid st = Inr (map_of st tid)"

definition mem_destroy :: "accessToken \<Rightarrow> store \<Rightarrow> error option \<times> store" where
  "mem_destroy tok st = (None, filter (\<lambda>(k, v). Some k \<noteq> id' tok) st)"

text \<open>
  The environment of the examples rounds nothing: their differences and quotients are whole
  numbers, which are doubles.
\<close>

definition mem_env ::
  "int \<Rightarrow> user_settings option \<Rightarrow> (string \<Rightarrow> user_settings option) \<Rightarrow> store env" where
  "mem_env t rel reg =
     \<lparr>now = t, rounded = (\<lambda>x. x), userRelation = rel, findModel = reg,
      destroy = mem_destroy, findById = mem_findById\<rparr>"

definition token :: "string \<Rightarrow> real option \<Rightarrow> int option \<Rightarrow> string option \<Rightarrow> accessToken" where
  "token tid t c p =
     \<lparr>id' = Some tid, ttl = t, created = map_option Date c, principalType = p\<rparr>"

text \<open>A user model that says nothing about eternal tokens, one that allows them, and a
  registry that knows no model.\<close>

definition strict :: user_settings where
  "strict = \<lparr>allowEternalTokens = None\<rparr>"

definition lenient :: user_settings where
  "lenient = \<lparr>allowEternalTokens = Some True\<rparr>"

definition no_models :: "string \<Rightarrow> user_settings option" where
  "no_models name = None"

text \<open>A registry where every name is a model that allows eternal tokens, and one where
  every name is a model that does not.\<close>

definition lenient_models :: "string \<Rightarrow> user_settings option" where
  "lenient_models name = Some lenient"

definition strict_models :: "string \<Rightarrow> user_settings option" where
  "strict_models name = Some strict"

text \<open>A request with no parameter, no header and no signed cookie.\<close>

definition no_props :: jsobject where
  "no_props key = Undefined"

definition blank_request :: request where
  "blank_request = \<lparr>req_params = Some no_props, req_body = None, req_query = Some no_props,
     req_header = no_props, req_signedCookies = None\<rparr>"

text \<open>
  A base64 decoder for the examples: the text up to the padding, read in the standard
  alphabet, six bits for each character. On well-formed base64 of ASCII text it gives what
  Node's \<^verbatim>\<open>new Buffer(s, 'base64').toString('utf8')\<close> gives.
\<close>

definition b64_alphabet :: string where
  "b64_alphabet = ''ABCDEFGHIJKLMNOPQRSTUVWXYZabcdefghijklmnopqrstuvwxyz0123456789+/''"

fun index_of :: "'a \<Rightarrow> 'a list \<Rightarrow> nat option" where
  "index_of c [] = None"
| "index_of c (x # xs) = (if c = x then Some 0 else map_option Suc (index_of c xs))"

fun sextets_bytes :: "nat list \<Rightarrow> nat list" where
  "sextets_bytes (a # b # c # d # rest) =
     [a * 4 + b div 16, (b mod 16) * 16 + c div 4, (c mod 4) * 64 + d] @ sextets_bytes rest"
| "sextets_bytes [a, b, c] = [a * 4 + b div 16, (b mod 16) * 16 + c div 4]"
| "sextets_bytes [a, b] = [a * 4 + b div 16]"
| "sextets_bytes _ = []"

definition base64_decode :: "string \<Rightarrow> string" where
  "base64_decode s =
     map char_of (sextets_bytes
       (List.map_filter (\<lambda>c. index_of c b64_alphabet) (takeWhile (\<lambda>c. c \<noteq> CHR ''='') s)))"

text \<open>A random source that always answers with the same string.\<close>

definition fixed_uid :: "nat \<Rightarrow> error + string" where
  "fixed_uid n = Inr ''fresh''"

section \<open>Properties\<close>

subsection \<open>Running the examples\<close>

lemmas run_defs = mem_env_def token_def mem_destroy_def mem_findById_def validate_def throw_def
  principalCheck_def eternalTokensAllowed_def elapsedSeconds_def truthy_def reports_valid_def
  reports_invalid_def strict_def lenient_def no_models_def lenient_models_def strict_models_def
  resolve_def invalidAccessToken_def

lemmas req_defs = getIdForRequest_def claimed_getIdForRequest_def param_names_def header_names_def
  cookie_names_def or_empty_def no_options_def param_value_def defined_in_def property_def
  header_match_def header_id_def user_pass_def line_terminator_def blank_request_def no_props_def

lemma decode_abc: "base64_decode ''YWJj'' = ''abc''"
  by code_simp

lemma decode_newline:
  "base64_decode ''YTpiYwo='' = [CHR ''a'', CHR '':'', CHR ''b'', CHR ''c'', CHR 0x0A]"
  by code_simp

lemma decode_token: "base64_decode ''dG9rZW46YTJiMmMz'' = ''token:a2b2c3''"
  by code_simp

subsection \<open>Expiry\<close>

text \<open>
  C1 as it is stated fails. A token created at time 1000 that lives 10 seconds and carries
  a \<^verbatim>\<open>principalType\<close> that the registry cannot resolve is validated at time 6000: 5 seconds
  have elapsed, fewer than \<^verbatim>\<open>ttl\<close>, and the callback is first told that the token is not
  valid.
\<close>

theorem validate_positive_ttl_counterexample:
  "created (token ''a'' (Some 10) (Some 1000) (Some ''Ghost'')) = Some (Date 1000) \<and>
   ttl (token ''a'' (Some 10) (Some 1000) (Some ''Ghost'')) = Some 10 \<and> (0::real) < 10 \<and>
   rounded (mem_env 6000 None no_models)
     (rounded (mem_env 6000 None no_models)
        (real_of_int (now (mem_env 6000 None no_models) - 1000)) / 1000) < 10 \<and>
   fst (validate (mem_env 6000 None no_models)
      (token ''a'' (Some 10) (Some 1000) (Some ''Ghost''))
      [(''a'', token ''a'' (Some 10) (Some 1000) (Some ''Ghost''))]) =
     [Callback None (Some False), Callback None (Some True)]"
  by (simp add: run_defs)

text \<open>
  C1, amended. For every token whose \<^verbatim>\<open>created\<close> is a valid Date, whose \<^verbatim>\<open>ttl\<close> is
  strictly positive and whose \<^verbatim>\<open>principalType\<close> is absent, empty or known to the registry,
  \<^verbatim>\<open>validate\<close> answers with the one call \<^verbatim>\<open>cb(null, true)\<close> if and only if the elapsed
  seconds, \<^verbatim>\<open>(now - created) / 1000\<close> as the code computes them, are strictly fewer than
  \<^verbatim>\<open>ttl\<close>. Otherwise, and so when they equal \<^verbatim>\<open>ttl\<close>, it destroys the token and answers
  with the one call \<^verbatim>\<open>cb(err, false)\<close>, where \<^verbatim>\<open>err\<close> is what \<^verbatim>\<open>destroy\<close> reports.
\<close>

theorem validate_positive_ttl:
  assumes "created tok = Some (Date c)" "ttl tok = Some t" "0 < t"
    and "\<forall>p. principalType tok = Some p \<and> p \<noteq> [] \<longrightarrow> findModel env p \<noteq> None"
  shows
    "(fst (validate env tok st) = [Callback None (Some True)] \<longleftrightarrow>
        rounded env (rounded env (real_of_int (now env - c)) / 1000) < t) \<and>
     (\<not> rounded env (rounded env (real_of_int (now env - c)) / 1000) < t \<longrightarrow>
        fst (validate env tok st) =
          [Destroy, Callback (fst (destroy env tok st)) (Some False)]) \<and>
     (rounded env (rounded env (real_of_int (now env - c)) / 1000) = t \<longrightarrow>
        fst (validate env tok st) =
          [Destroy, Callback (fst (destroy env tok st)) (Some False)])"
proof -
  from assms(4) have pc: "principalCheck env tok = []"
    by (auto simp: principalCheck_def truthy_def split: option.splits)
  show ?thesis
    using assms(1-3)
    by (auto simp: validate_def throw_def pc Let_def elapsedSeconds_def
        split: option.splits prod.splits)
qed

text \<open>
  C1, amended, on a token created at time 4000 that lives 10 seconds: valid at time 12000,
  8 seconds later; destroyed at time 14000, exactly 10 seconds later.
\<close>

theorem validate_positive_ttl_witness:
  "created (token ''a'' (Some 10) (Some 4000) None) = Some (Date 4000) \<and>
   ttl (token ''a'' (Some 10) (Some 4000) None) = Some 10 \<and> (0::real) < 10 \<and>
   principalType (token ''a'' (Some 10) (Some 4000) None) = None \<and>
   rounded (mem_env 12000 None no_models)
     (rounded (mem_env 12000 None no_models)
        (real_of_int (now (mem_env 12000 None no_models) - 4000)) / 1000) < 10 \<and>
   fst (validate (mem_env 12000 None no_models) (token ''a'' (Some 10) (Some 4000) None)
      [(''a'', token ''a'' (Some 10) (Some 4000) None)]) = [Callback None (Some True)] \<and>
   rounded (mem_env 14000 None no_models)
     (rounded (mem_env 14000 None no_models)
        (real_of_int (now (mem_env 14000 None no_models) - 4000)) / 1000) = 10 \<and>
   fst (validate (mem_env 14000 None no_models) (token ''a'' (Some 10) (Some 4000) None)
      [(''a'', token ''a'' (Some 10) (Some 4000) None)]) =
     [Destroy, Callback None (Some False)]"
proof -
  let ?tok = "token ''a'' (Some 10) (Some 4000) None"
  let ?early = "mem_env 12000 None no_models"
  let ?late = "mem_env 14000 None no_models"
  have h1: "created ?tok = Some (Date 4000)" and h2: "ttl ?tok = Some 10"
    and h3: "(0::real) < 10" and h4: "principalType ?tok = None"
    by (simp_all add: token_def)
  have p1: "\<forall>p. principalType ?tok = Some p \<and> p \<noteq> [] \<longrightarrow> findModel ?early p \<noteq> None"
    and p2: "\<forall>p. principalType ?tok = Some p \<and> p \<noteq> [] \<longrightarrow> findModel ?late p \<noteq> None"
    by (simp_all add: token_def)
  have e1: "rounded ?early (rounded ?early (real_of_int (now ?early - 4000)) / 1000) < 10"
    and e2: "rounded ?late (rounded ?late (real_of_int (now ?late - 4000)) / 1000) = 10"
    by (simp_all add: mem_env_def)
  have d: "fst (destroy ?late ?tok [(''a'', ?tok)]) = None"
    by (simp add: mem_env_def mem_destroy_def)
  have r1: "fst (validate ?early ?tok [(''a'', ?tok)]) = [Callback None (Some True)]"
    using validate_positive_ttl [OF h1 h2 h3 p1, of "[(''a'', ?tok)]"] e1 by blast
  have r2: "fst (validate ?late ?tok [(''a'', ?tok)]) = [Destroy, Callback None (Some False)]"
    using validate_positive_ttl [OF h1 h2 h3 p2, of "[(''a'', ?tok)]"] e2 d by simp
  show ?thesis
    using h1 h2 h3 h4 e1 r1 e2 r2 by (intro conjI) (simp_all only: simp_thms)
qed

subsection \<open>Hard errors\<close>

text \<open>
  C2, at a token whose \<^verbatim>\<open>created\<close> is an invalid Date (\<^verbatim>\<open>new Date(NaN)\<close>) and whose
  \<^verbatim>\<open>ttl\<close> is 3600. The value has a \<^verbatim>\<open>getTime\<close> function, so the assertion with the message
  \<^verbatim>\<open>token.created must be a valid Date\<close> passes. There is no hard error: the token is
  destroyed and the callback gets the plain result \<^verbatim>\<open>cb(null, false)\<close>.
\<close>

theorem validate_invalid_date_no_hard_error:
  "created ((token ''a'' (Some 3600) None None)\<lparr>created := Some InvalidDate\<rparr>) =
     Some InvalidDate \<and>
   validate (mem_env 5000 None no_models)
      ((token ''a'' (Some 3600) None None)\<lparr>created := Some InvalidDate\<rparr>)
      [(''a'', (token ''a'' (Some 3600) None None)\<lparr>created := Some InvalidDate\<rparr>)] =
     ([Destroy, Callback None (Some False)], []) \<and>
   \<not> hard_error (fst (validate (mem_env 5000 None no_models)
      ((token ''a'' (Some 3600) None None)\<lparr>created := Some InvalidDate\<rparr>)
      [(''a'', (token ''a'' (Some 3600) None None)\<lparr>created := Some InvalidDate\<rparr>)]))"
  by (simp add: run_defs)

text \<open>
  When \<^verbatim>\<open>validate\<close> ends with a hard error, for every token, environment and store: exactly
  when \<^verbatim>\<open>created\<close> has no \<^verbatim>\<open>getTime\<close> function, or \<^verbatim>\<open>ttl\<close> is absent, or \<^verbatim>\<open>ttl\<close> is
  0, or \<^verbatim>\<open>ttl\<close> is below -1 while eternal tokens are not allowed (the assertion of lines
  245 to 247). \<^verbatim>\<open>ttl = 0\<close> always ends with a hard error and never with \<^verbatim>\<open>cb(null, false)\<close>,
  and a hard error leaves the store as it was.
\<close>

lemma validate_hard_error_iff:
  "(hard_error (fst (validate env tok st)) \<longleftrightarrow>
      created tok = None \<or> ttl tok = None \<or> ttl tok = Some 0 \<or>
      (\<exists>t. ttl tok = Some t \<and> t < - 1 \<and> \<not> eternalTokensAllowed env)) \<and>
   (ttl tok = Some 0 \<longrightarrow>
      hard_error (fst (validate env tok st)) \<and> \<not> reports_invalid (fst (validate env tok st))) \<and>
   (hard_error (fst (validate env tok st)) \<longrightarrow> snd (validate env tok st) = st)"
  by (auto simp: validate_def throw_def principalCheck_def Let_def reports_invalid_def
      split: option.splits prod.splits if_splits)

text \<open>
  An invalid Date never counts as elapsed time below \<^verbatim>\<open>ttl\<close>: whatever the positive
  \<^verbatim>\<open>ttl\<close>, the token is destroyed and the last call of the callback says \<^verbatim>\<open>false\<close>.
\<close>

lemma validate_invalid_date_destroyed:
  assumes "created tok = Some InvalidDate" "ttl tok = Some t" "0 < t"
  shows "fst (validate env tok st) =
           Destroy # principalCheck env tok @ [Callback (fst (destroy env tok st)) (Some False)] \<and>
         snd (validate env tok st) = snd (destroy env tok st)"
  using assms
  by (auto simp: validate_def throw_def Let_def split: option.splits prod.splits)

subsection \<open>Eternal tokens\<close>

text \<open>
  C3, at a token with \<^verbatim>\<open>ttl = -1\<close>, a valid \<^verbatim>\<open>created\<close> and the \<^verbatim>\<open>principalType\<close>
  \<^verbatim>\<open>Customer\<close>. \<^verbatim>\<open>validate\<close> reads \<^verbatim>\<open>allowEternalTokens\<close> from the model of the user
  relation before it looks at \<^verbatim>\<open>principalType\<close>, and never reads the settings of the
  model it finds there. Where the user relation allows eternal tokens and the model
  \<^verbatim>\<open>Customer\<close> does not, the token is reported valid; where \<^verbatim>\<open>Customer\<close> allows them and
  the user relation does not, the token is destroyed and reported not valid.
\<close>

theorem validate_eternal_principal_model_unread:
  "findModel (mem_env 5000 (Some lenient) strict_models) ''Customer'' = Some strict \<and>
   allowEternalTokens strict = None \<and>
   validate (mem_env 5000 (Some lenient) strict_models)
      (token ''a'' (Some (- 1)) (Some 0) (Some ''Customer''))
      [(''a'', token ''a'' (Some (- 1)) (Some 0) (Some ''Customer''))] =
     ([Callback None (Some True)],
      [(''a'', token ''a'' (Some (- 1)) (Some 0) (Some ''Customer''))]) \<and>
   findModel (mem_env 5000 (Some strict) lenient_models) ''Customer'' = Some lenient \<and>
   allowEternalTokens lenient = Some True \<and>
   validate (mem_env 5000 (Some strict) lenient_models)
      (token ''a'' (Some (- 1)) (Some 0) (Some ''Customer''))
      [(''a'', token ''a'' (Some (- 1)) (Some 0) (Some ''Customer''))] =
     ([Destroy, Callback None (Some False)], [])"
  by (simp add: run_defs)

text \<open>
  What \<^verbatim>\<open>validate\<close> does with \<^verbatim>\<open>ttl = -1\<close>, for every token that has a \<^verbatim>\<open>created\<close> with a
  \<^verbatim>\<open>getTime\<close> function and a \<^verbatim>\<open>principalType\<close> that is absent, empty or known to the
  registry: the settings of the user relation's model alone decide between the one call
  \<^verbatim>\<open>cb(null, true)\<close> and \<^verbatim>\<open>destroy\<close> followed by \<^verbatim>\<open>cb(err, false)\<close>; the registry has no
  say. Where the user relation does not allow eternal tokens, a \<^verbatim>\<open>ttl\<close> below -1 ends with
  a hard error.
\<close>

lemma validate_eternal_user_relation:
  "(created tok = Some d \<and> ttl tok = Some (- 1) \<and>
    (\<forall>p. principalType tok = Some p \<and> p \<noteq> [] \<longrightarrow> findModel env p \<noteq> None) \<longrightarrow>
      fst (validate env tok st) =
        (if \<exists>User. userRelation env = Some User \<and> allowEternalTokens User = Some True
         then [Callback None (Some True)]
         else [Destroy, Callback (fst (destroy env tok st)) (Some False)])) \<and>
   (ttl tok = Some t \<and> t < - 1 \<and>
    \<not> (\<exists>User. userRelation env = Some User \<and> allowEternalTokens User = Some True) \<longrightarrow>
      hard_error (fst (validate env tok st)) \<and> \<not> reports_invalid (fst (validate env tok st)))"
proof -
  have pc: "principalCheck env tok = []"
    if "\<forall>p. principalType tok = Some p \<and> p \<noteq> [] \<longrightarrow> findModel env p \<noteq> None"
    using that by (auto simp: principalCheck_def truthy_def split: option.splits)
  show ?thesis
    by (auto simp: validate_def throw_def pc Let_def reports_invalid_def
        eternalTokensAllowed_def split: option.splits prod.splits if_splits)
qed

subsection \<open>Invalid tokens are destroyed\<close>

text \<open>
  C4. Take a token whose \<^verbatim>\<open>principalType\<close> is absent, empty or known to the registry.
  When the token has expired, or is eternal where eternal tokens are not allowed,
  \<^verbatim>\<open>validate\<close> calls \<^verbatim>\<open>destroy\<close> on it and then tells the callback that it is not
  valid: the store is the one \<^verbatim>\<open>destroy\<close> leaves, and the callback gets the error of
  \<^verbatim>\<open>destroy\<close>, if any. Whenever the callback is told \<^verbatim>\<open>false\<close>, this is how. For every
  token, with any \<^verbatim>\<open>principalType\<close>: when the callback is told that the token is valid,
  \<^verbatim>\<open>destroy\<close> is not called and the store is as it was.
\<close>

theorem validate_destroys_invalid:
  "((\<forall>p. principalType tok = Some p \<and> p \<noteq> [] \<longrightarrow> findModel env p \<noteq> None) \<longrightarrow>
      (created tok = Some (Date c) \<and> ttl tok = Some t \<and>
         (0 < t \<and> \<not> elapsedSeconds env c < t \<or> t = - 1 \<and> \<not> eternalTokensAllowed env) \<longrightarrow>
         fst (validate env tok st) =
           [Destroy, Callback (fst (destroy env tok st)) (Some False)] \<and>
         snd (validate env tok st) = snd (destroy env tok st)) \<and>
      (Callback err (Some False) \<in> set (fst (validate env tok st)) \<longrightarrow>
         fst (validate env tok st) = [Destroy, Callback err (Some False)] \<and>
         destroy env tok st = (err, snd (validate env tok st)))) \<and>
   (reports_valid (fst (validate env tok st)) \<longrightarrow>
      Destroy \<notin> set (fst (validate env tok st)) \<and> snd (validate env tok st) = st)"
proof -
  have expired: "(created tok = Some (Date c) \<and> ttl tok = Some t \<and>
         (0 < t \<and> \<not> elapsedSeconds env c < t \<or> t = - 1 \<and> \<not> eternalTokensAllowed env) \<longrightarrow>
         fst (validate env tok st) =
           [Destroy, Callback (fst (destroy env tok st)) (Some False)] \<and>
         snd (validate env tok st) = snd (destroy env tok st)) \<and>
      (Callback err (Some False) \<in> set (fst (validate env tok st)) \<longrightarrow>
         fst (validate env tok st) = [Destroy, Callback err (Some False)] \<and>
         destroy env tok st = (err, snd (validate env tok st)))"
    if known: "\<forall>p. principalType tok = Some p \<and> p \<noteq> [] \<longrightarrow> findModel env p \<noteq> None"
  proof -
    from known have pc: "principalCheck env tok = []"
      by (auto simp: principalCheck_def truthy_def split: option.splits)
    show ?thesis
      by (auto simp: validate_def throw_def pc Let_def
          split: option.splits prod.splits if_splits)
  qed
  have valid: "Destroy \<notin> set (fst (validate env tok st)) \<and> snd (validate env tok st) = st"
    if "reports_valid (fst (validate env tok st))"
    using that
    by (auto simp: validate_def throw_def principalCheck_def Let_def reports_valid_def
        split: option.splits prod.splits if_splits)
  show ?thesis
  proof (rule conjI)
    show "(\<forall>p. principalType tok = Some p \<and> p \<noteq> [] \<longrightarrow> findModel env p \<noteq> None) \<longrightarrow>
      (created tok = Some (Date c) \<and> ttl tok = Some t \<and>
         (0 < t \<and> \<not> elapsedSeconds env c < t \<or> t = - 1 \<and> \<not> eternalTokensAllowed env) \<longrightarrow>
         fst (validate env tok st) =
           [Destroy, Callback (fst (destroy env tok st)) (Some False)] \<and>
         snd (validate env tok st) = snd (destroy env tok st)) \<and>
      (Callback err (Some False) \<in> set (fst (validate env tok st)) \<longrightarrow>
         fst (validate env tok st) = [Destroy, Callback err (Some False)] \<and>
         destroy env tok st = (err, snd (validate env tok st)))"
      using expired by (rule impI)
    show "reports_valid (fst (validate env tok st)) \<longrightarrow>
      Destroy \<notin> set (fst (validate env tok st)) \<and> snd (validate env tok st) = st"
      using valid by (rule impI)
  qed
qed

text \<open>
  C4, on a store with two tokens of 10 seconds at time 10000: the one created at 0 has
  expired and is removed from the store before the callback hears of it, the one created
  at 9000 is valid and the store keeps both.
\<close>

theorem validate_destroys_invalid_witness:
  "principalType (token ''a'' (Some 10) (Some 0) None) = None \<and>
   created (token ''a'' (Some 10) (Some 0) None) = Some (Date 0) \<and>
   ttl (token ''a'' (Some 10) (Some 0) None) = Some 10 \<and> (0::real) < 10 \<and>
   \<not> elapsedSeconds (mem_env 10000 None no_models) 0 < 10 \<and>
   validate (mem_env 10000 None no_models) (token ''a'' (Some 10) (Some 0) None)
      [(''a'', token ''a'' (Some 10) (Some 0) None),
       (''b'', token ''b'' (Some 10) (Some 9000) None)] =
     ([Destroy, Callback None (Some False)], [(''b'', token ''b'' (Some 10) (Some 9000) None)]) \<and>
   reports_valid (fst (validate (mem_env 10000 None no_models)
      (token ''b'' (Some 10) (Some 9000) None)
      [(''a'', token ''a'' (Some 10) (Some 0) None),
       (''b'', token ''b'' (Some 10) (Some 9000) None)])) \<and>
   snd (validate (mem_env 10000 None no_models) (token ''b'' (Some 10) (Some 9000) None)
      [(''a'', token ''a'' (Some 10) (Some 0) None),
       (''b'', token ''b'' (Some 10) (Some 9000) None)]) =
     [(''a'', token ''a'' (Some 10) (Some 0) None),
      (''b'', token ''b'' (Some 10) (Some 9000) None)]"
proof -
  let ?a = "token ''a'' (Some 10) (Some 0) None"
  let ?b = "token ''b'' (Some 10) (Some 9000) None"
  let ?env = "mem_env 10000 None no_models"
  let ?st = "[(''a'', ?a), (''b'', ?b)]"
  have na: "principalType ?a = None" by (simp add: token_def)
  have pa: "\<forall>p. principalType ?a = Some p \<and> p \<noteq> [] \<longrightarrow> findModel ?env p \<noteq> None"
    by (simp add: token_def)
  have ha: "created ?a = Some (Date 0) \<and> ttl ?a = Some 10 \<and>
      ((0::real) < 10 \<and> \<not> elapsedSeconds ?env 0 < 10 \<or>
       (10::real) = - 1 \<and> \<not> eternalTokensAllowed ?env)"
    by (simp add: token_def elapsedSeconds_def mem_env_def)
  have e: "(0::real) < 10 \<and> \<not> elapsedSeconds ?env 0 < 10"
    by (simp add: elapsedSeconds_def mem_env_def)
  have d: "destroy ?env ?a ?st = (None, [(''b'', ?b)])"
    by (simp add: mem_env_def mem_destroy_def token_def)
  have vb: "reports_valid (fst (validate ?env ?b ?st))"
    by (simp add: run_defs)
  have ra: "validate ?env ?a ?st = ([Destroy, Callback None (Some False)], [(''b'', ?b)])"
    using validate_destroys_invalid [where tok = ?a and env = ?env and c = 0 and t = 10
        and st = ?st, THEN conjunct1, THEN mp, OF pa, THEN conjunct1, THEN mp, OF ha]
    by (simp only: d fst_conv snd_conv prod_eq_iff)
  have rb: "snd (validate ?env ?b ?st) = ?st"
    using validate_destroys_invalid [where tok = ?b and env = ?env and st = ?st,
        THEN conjunct2, rule_format, OF vb]
    by (rule conjunct2)
  show ?thesis
    using na ha ra vb rb e by (intro conjI) (simp_all only: simp_thms)
qed

subsection \<open>Resolving a token id\<close>



subsection \<open>A principal type that the registry does not know\<close>

text \<open>
  C6, at a token created at time 0 that lives 10 seconds and carries the \<^verbatim>\<open>principalType\<close>
  \<^verbatim>\<open>Ghost\<close>, which the registry cannot resolve, validated at time 5000. The branch for an
  unknown \<^verbatim>\<open>principalType\<close> defers \<^verbatim>\<open>cb(null, false)\<close> and does not return from
  \<^verbatim>\<open>validate\<close>, which goes on to the comparison and calls the callback a second time,
  with \<^verbatim>\<open>(null, true)\<close>. \<^verbatim>\<open>resolve\<close> answers first with \<^verbatim>\<open>INVALID_TOKEN\<close> and then with
  the token.
\<close>

theorem validate_unresolved_principal_calls_back_twice:
  "principalType (token ''a'' (Some 10) (Some 0) (Some ''Ghost'')) = Some ''Ghost'' \<and>
   findModel (mem_env 5000 None no_models) ''Ghost'' = None \<and>
   validate (mem_env 5000 None no_models) (token ''a'' (Some 10) (Some 0) (Some ''Ghost''))
      [(''a'', token ''a'' (Some 10) (Some 0) (Some ''Ghost''))] =
     ([Callback None (Some False), Callback None (Some True)],
      [(''a'', token ''a'' (Some 10) (Some 0) (Some ''Ghost''))]) \<and>
   resolve (mem_env 5000 None no_models) ''a''
      [(''a'', token ''a'' (Some 10) (Some 0) (Some ''Ghost''))] =
     ([Callback (Some (HttpError ''Invalid Access Token'' 401 ''INVALID_TOKEN'')) None,
       Callback None (Some (token ''a'' (Some 10) (Some 0) (Some ''Ghost'')))],
      [(''a'', token ''a'' (Some 10) (Some 0) (Some ''Ghost''))])"
  by (simp add: run_defs)

text \<open>
  The same for every token with a valid \<^verbatim>\<open>created\<close>, a positive \<^verbatim>\<open>ttl\<close> and a
  \<^verbatim>\<open>principalType\<close> that the registry cannot resolve: the callback is told \<^verbatim>\<open>false\<close> and
  then called again, with \<^verbatim>\<open>true\<close> when the token has not expired, and after
  \<^verbatim>\<open>destroy\<close> with \<^verbatim>\<open>false\<close> when it has.
\<close>

lemma validate_unresolved_principal:
  assumes "principalType tok = Some p" "p \<noteq> []" "findModel env p = None"
    and "created tok = Some (Date c)" "ttl tok = Some t" "0 < t"
  shows "fst (validate env tok st) =
     (if elapsedSeconds env c < t
      then [Callback None (Some False), Callback None (Some True)]
      else [Destroy, Callback None (Some False),
            Callback (fst (destroy env tok st)) (Some False)])"
  using assms
  by (auto simp: validate_def throw_def principalCheck_def truthy_def Let_def
      split: option.splits prod.splits)

text \<open>
  The assertions come before the branch: with \<^verbatim>\<open>ttl = 0\<close> a token of an unknown
  \<^verbatim>\<open>principalType\<close> gets a hard error.
\<close>

lemma validate_unresolved_principal_hard_error:
  "validate (mem_env 5000 None no_models) (token ''a'' (Some 0) (Some 0) (Some ''Ghost'')) [] =
     ([Callback (Some (AssertionError ''token.ttl must be not be 0'')) None], [])"
  by (simp add: run_defs)

subsection \<open>The order of the search in getIdForRequest\<close>

lemma first_string_append:
  "first_string (xs @ ys) = (case first_string xs of Some s \<Rightarrow> Some s | None \<Rightarrow> first_string ys)"
  by (induction xs rule: first_string.induct) simp_all

lemma search_params_first: "search_params req ps = first_string (map (param_value req) ps)"
  by (induction ps) (simp_all split: jsval.splits)

lemma search_headers_first:
  "search_headers decode opts req hs = first_string (map (header_match decode opts req) hs)"
  by (induction hs) (simp_all add: header_match_def split: jsval.splits)

lemma search_cookies_first: "search_cookies signed cs = first_string (map signed cs)"
  by (induction cs) (simp_all split: jsval.splits)

lemma first_string_undefined: "first_string (map (\<lambda>key. Undefined) cs) = None"
  by (induction cs) simp_all

lemma param_value_first_defined:
  "param_value req name =
     first_defined [property (req_params req) name, property (req_body req) name,
                    property (req_query req) name]"
  by (cases "property (req_params req) name"; cases "property (req_body req) name";
      cases "property (req_query req) name")
    (auto simp: param_value_def defined_in_def property_def split: option.splits)

text \<open>
  C7 as it is stated fails: with \<^verbatim>\<open>access_token\<close> a number in the body and a string in
  the query, the first string of the ordered search is the one in the query, and
  \<^verbatim>\<open>getIdForRequest\<close> returns \<^verbatim>\<open>null\<close>.
\<close>

theorem getIdForRequest_search_counterexample:
  "getIdForRequest base64_decode
     (blank_request\<lparr>req_body := Some (no_props(''access_token'' := Other)),
                     req_query := Some (no_props(''access_token'' := Str ''abc''))\<rparr>)
     None = None \<and>
   claimed_getIdForRequest base64_decode
     (blank_request\<lparr>req_body := Some (no_props(''access_token'' := Other)),
                     req_query := Some (no_props(''access_token'' := Str ''abc''))\<rparr>)
     None = Some ''abc''"
  by (simp add: req_defs)

text \<open>
  C7, amended. \<^verbatim>\<open>getIdForRequest\<close> searches in strict order: the parameter names, where
  each name stands for the first value that is not undefined among the route parameters,
  the body and the query, in that order; then the header names, where a name stands for the
  id read from its value when that value is a string and not empty; then the names of the
  signed cookies, when the request has signed cookies. It returns the first string of this
  list, or \<^verbatim>\<open>null\<close> when the list has none. The names are the configured ones followed by
  the default keys, unless the default keys are switched off.
\<close>

theorem getIdForRequest_search:
  "getIdForRequest decode req options =
     (let opts = (case options of None \<Rightarrow> no_options | Some given \<Rightarrow> given)
      in first_string
           (map (\<lambda>name. first_defined [property (req_params req) name,
                                        property (req_body req) name,
                                        property (req_query req) name]) (param_names opts) @
            map (header_match decode opts req) (header_names opts) @
            map (property (req_signedCookies req)) (cookie_names opts)))"
proof -
  have cookies: "(case req_signedCookies req of None \<Rightarrow> None
      | Some signed \<Rightarrow> search_cookies signed cs) =
      first_string (map (property (req_signedCookies req)) cs)" for cs
  proof (cases "req_signedCookies req")
    case None
    then have "property (req_signedCookies req) = (\<lambda>key. Undefined)"
      by (simp add: property_def fun_eq_iff)
    with None show ?thesis by (simp add: first_string_undefined)
  next
    case (Some signed)
    then have "property (req_signedCookies req) = signed"
      by (simp add: property_def fun_eq_iff)
    with Some show ?thesis by (simp add: search_cookies_first)
  qed
  have params: "map (param_value req) ps =
      map (\<lambda>name. first_defined [property (req_params req) name, property (req_body req) name,
                                   property (req_query req) name]) ps" for ps
    by (simp add: param_value_first_defined)
  show ?thesis
    unfolding getIdForRequest_def Let_def cookies search_params_first search_headers_first params
    by (simp add: first_string_append split: option.splits)
qed

text \<open>
  C7, amended, on a request where the number in the body hides the string in the query and
  no header is set: the id is the signed cookie \<^verbatim>\<open>authorization\<close>.
\<close>

theorem getIdForRequest_search_witness:
  "getIdForRequest base64_decode
     (blank_request\<lparr>req_body := Some (no_props(''access_token'' := Other)),
                     req_query := Some (no_props(''access_token'' := Str ''abc'')),
                     req_signedCookies := Some (no_props(''authorization'' := Str ''xyz''))\<rparr>)
     None = Some ''xyz''"
  using getIdForRequest_search [of base64_decode
     "blank_request\<lparr>req_body := Some (no_props(''access_token'' := Other)),
                     req_query := Some (no_props(''access_token'' := Str ''abc'')),
                     req_signedCookies := Some (no_props(''authorization'' := Str ''xyz''))\<rparr>"
     None]
  by (simp add: param_names_def header_names_def cookie_names_def or_empty_def no_options_def
      property_def header_match_def blank_request_def no_props_def)

subsection \<open>Bearer headers\<close>

text \<open>
  What \<^verbatim>\<open>getIdForRequest\<close> reads from a header that starts with \<^verbatim>\<open>Bearer \<close>: the rest
  of the value, decoded only when the option \<^verbatim>\<open>bearerTokenBase64Encoded\<close> is given and true.
\<close>

lemma header_id_bearer:
  "take 7 v = ''Bearer '' \<Longrightarrow>
     header_id decode opts v =
       (if bearerTokenBase64Encoded opts = Some True then decode (drop 7 v) else drop 7 v)"
  by (simp add: header_id_def)

text \<open>
  C8, at the header \<^verbatim>\<open>authorization: Bearer YWJj\<close>. Without options, and with options that
  leave \<^verbatim>\<open>bearerTokenBase64Encoded\<close> out, the function returns \<^verbatim>\<open>YWJj\<close>: the prefix is
  stripped and nothing is decoded. Only when the option is given as true is the result the
  decoded \<^verbatim>\<open>abc\<close>. The documentation of the function says that the option defaults to true.
\<close>

theorem getIdForRequest_bearer_default:
  "getIdForRequest base64_decode
     (blank_request\<lparr>req_header := no_props(''authorization'' := Str ''Bearer YWJj'')\<rparr>)
     None = Some ''YWJj'' \<and>
   getIdForRequest base64_decode
     (blank_request\<lparr>req_header := no_props(''authorization'' := Str ''Bearer YWJj'')\<rparr>)
     (Some no_options) = Some ''YWJj'' \<and>
   getIdForRequest base64_decode
     (blank_request\<lparr>req_header := no_props(''authorization'' := Str ''Bearer YWJj'')\<rparr>)
     (Some (no_options\<lparr>bearerTokenBase64Encoded := Some True\<rparr>)) = Some ''abc'' \<and>
   base64_decode ''YWJj'' = ''abc''"
  by (simp add: req_defs decode_abc)

subsection \<open>Basic headers and empty headers\<close>

lemma is_basic_not_bearer: "is_basic v \<Longrightarrow> take 7 v \<noteq> ''Bearer ''"
  by (cases v rule: is_basic.cases) auto

lemma user_pass_split:
  assumes "CHR '':'' \<notin> set left" "\<not> list_ex line_terminator right"
  shows "user_pass (left @ CHR '':'' # right) = Some (left, right)"
proof -
  have "dropWhile (\<lambda>ch. ch \<noteq> CHR '':'') (left @ CHR '':'' # right) = CHR '':'' # right"
    using assms(1) by (induction left) auto
  moreover have "takeWhile (\<lambda>ch. ch \<noteq> CHR '':'') (left @ CHR '':'' # right) = left"
    using assms(1) by (induction left) auto
  ultimately show ?thesis using assms(2) by (simp add: user_pass_def)
qed

lemma search_headers_skip:
  assumes "\<forall>n \<in> set skipped. \<forall>s. req_header req n = Str s \<longrightarrow> s = []"
  shows "search_headers decode opts req (skipped @ rest) = search_headers decode opts req rest"
  using assms by (induction skipped) (auto split: jsval.splits)

text \<open>
  C9 as it is stated fails: the header \<^verbatim>\<open>Basic YTpiYwo=\<close> decodes to \<^verbatim>\<open>a:bc\<close> followed by
  a line feed. The part after the first colon is the longer one, and the function returns
  the whole decoded value, colon included: the regular expression does not match when a
  line terminator follows the colon.
\<close>

theorem getIdForRequest_basic_counterexample:
  "base64_decode ''YTpiYwo='' = ''a'' @ CHR '':'' # [CHR ''b'', CHR ''c'', CHR 0x0A] \<and>
   CHR '':'' \<notin> set ''a'' \<and> length ''a'' < length [CHR ''b'', CHR ''c'', CHR 0x0A] \<and>
   getIdForRequest base64_decode
     (blank_request\<lparr>req_header := no_props(''authorization'' := Str ''Basic YTpiYwo='')\<rparr>)
     None \<noteq> Some [CHR ''b'', CHR ''c'', CHR 0x0A] \<and>
   getIdForRequest base64_decode
     (blank_request\<lparr>req_header := no_props(''authorization'' := Str ''Basic YTpiYwo='')\<rparr>)
     None = Some [CHR ''a'', CHR '':'', CHR ''b'', CHR ''c'', CHR 0x0A]"
  by (simp add: req_defs decode_newline)

text \<open>
  C9, amended. When no parameter matches and the first header whose value is a string and
  not empty matches \<^verbatim>\<open>Basic \<close> in any case, its value after the prefix is decoded; when
  the decoded value has a colon and no line feed or carriage return after its first colon,
  it is split at the first colon and the longer of the two parts is returned (the first
  part when they are equally long). A header whose value is the empty string is skipped:
  the search over the header names goes on as if the name were not listed.
\<close>

theorem getIdForRequest_basic:
  "(search_params req (param_names opts) = None \<and>
    header_names opts = skipped @ name # rest \<and>
    (\<forall>n \<in> set skipped. \<forall>s. req_header req n = Str s \<longrightarrow> s = []) \<and>
    req_header req name = Str v \<and> is_basic v \<and>
    decode (drop 6 v) = left @ CHR '':'' # right \<and> CHR '':'' \<notin> set left \<and>
    \<not> list_ex line_terminator right \<longrightarrow>
      getIdForRequest decode req (Some opts) =
        Some (if length right > length left then right else left)) \<and>
   (req_header req name = Str [] \<longrightarrow>
      search_headers decode opts req (before @ name # rest) =
        search_headers decode opts req (before @ rest))"
proof (intro conjI impI)
  assume h: "search_params req (param_names opts) = None \<and>
    header_names opts = skipped @ name # rest \<and>
    (\<forall>n \<in> set skipped. \<forall>s. req_header req n = Str s \<longrightarrow> s = []) \<and>
    req_header req name = Str v \<and> is_basic v \<and>
    decode (drop 6 v) = left @ CHR '':'' # right \<and> CHR '':'' \<notin> set left \<and>
    \<not> list_ex line_terminator right"
  then have nonempty: "v \<noteq> []" by auto
  from h have parts: "user_pass (decode (drop 6 v)) = Some (left, right)"
    by (simp add: user_pass_split)
  from h have "take 7 v \<noteq> ''Bearer ''" by (simp add: is_basic_not_bearer)
  with h parts have hid: "header_id decode opts v =
      (if length right > length left then right else left)"
    by (simp add: header_id_def)
  from h have "search_headers decode opts req (header_names opts) =
      search_headers decode opts req (name # rest)"
    by (simp add: search_headers_skip)
  with h nonempty hid have "search_headers decode opts req (header_names opts) =
      Some (if length right > length left then right else left)"
    by simp
  with h show "getIdForRequest decode req (Some opts) =
      Some (if length right > length left then right else left)"
    by (simp add: getIdForRequest_def)
next
  assume e: "req_header req name = Str []"
  show "search_headers decode opts req (before @ name # rest) =
      search_headers decode opts req (before @ rest)"
    using e by (induction before) (simp_all split: jsval.splits)
qed

text \<open>
  C9, amended, on a request with an empty \<^verbatim>\<open>X-Access-Token\<close> header and the header
  \<^verbatim>\<open>authorization: bAsIc dG9rZW46YTJiMmMz\<close>, which decodes to \<^verbatim>\<open>token:a2b2c3\<close>.
\<close>

theorem getIdForRequest_basic_witness:
  "getIdForRequest base64_decode
     (blank_request\<lparr>req_header := no_props(''X-Access-Token'' := Str [],
        ''authorization'' := Str ''bAsIc dG9rZW46YTJiMmMz'')\<rparr>)
     (Some no_options) = Some ''a2b2c3'' \<and>
   search_headers base64_decode no_options
     (blank_request\<lparr>req_header := no_props(''X-Access-Token'' := Str [],
        ''authorization'' := Str ''bAsIc dG9rZW46YTJiMmMz'')\<rparr>)
     ([''x-token''] @ ''X-Access-Token'' # [''authorization'']) =
   search_headers base64_decode no_options
     (blank_request\<lparr>req_header := no_props(''X-Access-Token'' := Str [],
        ''authorization'' := Str ''bAsIc dG9rZW46YTJiMmMz'')\<rparr>)
     ([''x-token''] @ [''authorization''])"
proof -
  let ?req = "blank_request\<lparr>req_header := no_props(''X-Access-Token'' := Str [],
        ''authorization'' := Str ''bAsIc dG9rZW46YTJiMmMz'')\<rparr>"
  have h: "search_params ?req (param_names no_options) = None \<and>
    header_names no_options = [''X-Access-Token''] @ ''authorization'' # [] \<and>
    (\<forall>n \<in> set [''X-Access-Token'']. \<forall>s. req_header ?req n = Str s \<longrightarrow> s = []) \<and>
    req_header ?req ''authorization'' = Str ''bAsIc dG9rZW46YTJiMmMz'' \<and>
    is_basic ''bAsIc dG9rZW46YTJiMmMz'' \<and>
    base64_decode (drop 6 ''bAsIc dG9rZW46YTJiMmMz'') = ''token'' @ CHR '':'' # ''a2b2c3'' \<and>
    CHR '':'' \<notin> set ''token'' \<and> \<not> list_ex line_terminator ''a2b2c3''"
    by (simp add: req_defs decode_token)
  have e: "req_header ?req ''X-Access-Token'' = Str []"
    by (simp add: blank_request_def no_props_def)
  have r1: "getIdForRequest base64_decode ?req (Some no_options) = Some ''a2b2c3''"
    using getIdForRequest_basic [where decode = base64_decode and req = ?req
        and opts = no_options and skipped = "[''X-Access-Token'']"
        and name = "''authorization''" and rest = "[]"
        and v = "''bAsIc dG9rZW46YTJiMmMz''" and left = "''token''" and right = "''a2b2c3''",
        THEN conjunct1, rule_format, OF h]
    by simp
  have r2: "search_headers base64_decode no_options ?req
        ([''x-token''] @ ''X-Access-Token'' # [''authorization'']) =
      search_headers base64_decode no_options ?req ([''x-token''] @ [''authorization''])"
    using getIdForRequest_basic [where req = ?req and name = "''X-Access-Token''",
        THEN conjunct2, rule_format, OF e] .
  from r1 r2 show ?thesis by (rule conjI)
qed

subsection \<open>The before save observer\<close>

text \<open>
  C10. The observer leaves the context as it is, and passes no error on, for every partial
  update (no \<^verbatim>\<open>ctx.instance\<close>) and for every instance that has an id. The context changes
  only when a full instance without an id is saved and the random source answers with a
  string; then the instance gets that string as its id, and nothing else of the instance
  or of the context changes.
\<close>

theorem before_save_keeps_id:
  "(instance' ctx = None \<longrightarrow> before_save uid settings ctx = (None, ctx)) \<and>
   (instance' ctx = Some inst \<and> truthy (id' inst) \<longrightarrow>
      before_save uid settings ctx = (None, ctx)) \<and>
   (snd (before_save uid settings ctx) \<noteq> ctx \<longrightarrow>
      (\<exists>fresh new. instance' ctx = Some fresh \<and> \<not> truthy (id' fresh) \<and>
         createAccessTokenId uid settings = Inr new \<and>
         before_save uid settings ctx =
           (None, ctx\<lparr>instance' := Some (fresh\<lparr>id' := Some new\<rparr>)\<rparr>)))"
  by (auto simp: before_save_def split: option.splits sum.splits if_splits)

text \<open>
  C10, on a partial update, on a token that has the id \<^verbatim>\<open>a\<close>, and on the same token
  without an id.
\<close>

theorem before_save_keeps_id_witness:
  "instance' (\<lparr>instance' = None\<rparr> :: unit ctx) = None \<and>
   before_save fixed_uid \<lparr>accessTokenIdLength = None\<rparr> (\<lparr>instance' = None\<rparr> :: unit ctx) =
     (None, \<lparr>instance' = None\<rparr>) \<and>
   instance' \<lparr>instance' = Some (token ''a'' (Some 10) (Some 0) None)\<rparr> =
     Some (token ''a'' (Some 10) (Some 0) None) \<and>
   truthy (id' (token ''a'' (Some 10) (Some 0) None)) \<and>
   before_save fixed_uid \<lparr>accessTokenIdLength = None\<rparr>
      \<lparr>instance' = Some (token ''a'' (Some 10) (Some 0) None)\<rparr> =
     (None, \<lparr>instance' = Some (token ''a'' (Some 10) (Some 0) None)\<rparr>) \<and>
   snd (before_save fixed_uid \<lparr>accessTokenIdLength = None\<rparr>
      \<lparr>instance' = Some ((token ''a'' (Some 10) (Some 0) None)\<lparr>id' := None\<rparr>)\<rparr>) \<noteq>
     \<lparr>instance' = Some ((token ''a'' (Some 10) (Some 0) None)\<lparr>id' := None\<rparr>)\<rparr> \<and>
   before_save fixed_uid \<lparr>accessTokenIdLength = None\<rparr>
      \<lparr>instance' = Some ((token ''a'' (Some 10) (Some 0) None)\<lparr>id' := None\<rparr>)\<rparr> =
     (None, \<lparr>instance' = Some (token ''fresh'' (Some 10) (Some 0) None)\<rparr>)"
proof -
  let ?s = "\<lparr>accessTokenIdLength = None\<rparr>"
  let ?a = "token ''a'' (Some 10) (Some 0) None"
  let ?partial = "\<lparr>instance' = None\<rparr> :: unit ctx"
  let ?saved = "\<lparr>instance' = Some ?a\<rparr>"
  let ?new = "\<lparr>instance' = Some (?a\<lparr>id' := None\<rparr>)\<rparr>"
  have h1: "instance' ?partial = None" by simp
  have h2: "instance' ?saved = Some ?a \<and> truthy (id' ?a)"
    by (simp add: token_def truthy_def)
  have h3: "snd (before_save fixed_uid ?s ?new) \<noteq> ?new"
    by (simp add: before_save_def createAccessTokenId_def fixed_uid_def token_def truthy_def)
  have r1: "before_save fixed_uid ?s ?partial = (None, ?partial)"
    using before_save_keeps_id [where ctx = ?partial and uid = fixed_uid and settings = ?s,
        THEN conjunct1, rule_format, OF h1] .
  have r2: "before_save fixed_uid ?s ?saved = (None, ?saved)"
    using before_save_keeps_id [where ctx = ?saved and inst = ?a and uid = fixed_uid
        and settings = ?s, THEN conjunct2, THEN conjunct1, rule_format, OF h2] .
  have r3: "before_save fixed_uid ?s ?new =
      (None, \<lparr>instance' = Some (token ''fresh'' (Some 10) (Some 0) None)\<rparr>)"
    using before_save_keeps_id [where ctx = ?new and uid = fixed_uid and settings = ?s,
        THEN conjunct2, THEN conjunct2, rule_format, OF h3]
    by (auto simp: token_def createAccessTokenId_def fixed_uid_def)
  show ?thesis
    using h1 h2 h3 r1 r2 r3 by (intro conjI) (simp_all only: simp_thms)
qed

end
